theory Spec2Isabelle
  imports Complex_Main
begin

section \<open>Data model of the computer-use agent (src/index.ts, src/interactive.ts)\<close>

text \<open>
  The agent classes \<open>ComputerUseAgent\<close> (src/index.ts) and \<open>InteractiveComputerAgent\<close>
  (src/interactive.ts) hold a sandbox handle \<open>desktop\<close> (null until \<open>initialize\<close>) and a
  list \<open>conversationHistory\<close>. Everything else they touch is remote: the desktop sandbox
  and the completion provider. The embedding passes the agent's fields as an explicit
  state, returns every thrown exception as \<open>Inl\<close>, and records every remote call in a
  trace so that the order and the number of calls can be stated.

  Numbers: a finite number is modelled by a rational, on which \<open>Math.round\<close> and \<open><\<close>
  are exact. The coordinates of a click are JavaScript numbers in full (\<open>jsnum\<close>): a
  JSON number beyond the double range is parsed to \<open>Infinity\<close> or \<open>-Infinity\<close>, and
  \<open>NaN\<close> arises from \<open>Math.round(undefined)\<close>. The amount of a scroll and the duration
  of a wait are finite numbers; the counter of the scroll loop is a natural number,
  which is what the JavaScript counter holds below 2^53. A field that the request omits
  is \<open>None\<close> (JavaScript's \<open>undefined\<close>). The fields of a tool input carry the types that the
  source asserts for them (\<open>toolInput as { x: number; y: number }\<close> and so on).
  Strings are character lists. \<open>JSON.stringify\<close> of a result object is kept as the
  object itself (\<open>tool_result\<close>).
\<close>

datatype role = User | Assistant

datatype jsnum = Num rat | NaN | PosInfinity | NegInfinity

record tool_input =
  in_x :: "jsnum option"
  in_y :: "jsnum option"
  in_text :: "string option"
  in_key :: "string option"
  in_direction :: "string option"
  in_amount :: "rat option"
  in_app :: "string option"
  in_duration :: "rat option"

text \<open>The three objects that \<open>executeToolCall\<close> serialises:
  \<open>{success: true}\<close>, \<open>{success: true, image_base64: b}\<close> and \<open>{error: m}\<close>.\<close>

datatype tool_result = Success | SuccessImage string | ErrorResult string

datatype content_block =
    TextBlock string
  | ToolUseBlock string string tool_input
  | ImageBlock string
  | ToolResultBlock string tool_result
  | OtherBlock

datatype msg_content = Str string | Blocks "content_block list"

record message =
  role :: role
  content :: msg_content

text \<open>The two system strings of \<open>chat\<close>: the long one that lists the tools, and
  "You are a computer use agent. Continue working on the task based on the tool results."\<close>

datatype system_prompt = AgentPrompt | ContinuePrompt

record request =
  req_system :: system_prompt
  req_messages :: "(role \<times> content_block list) list"

datatype exn = JsError string

datatype sandbox_op =
    Create
  | Screenshot
  | Click jsnum jsnum
  | Write "string option"
  | Press "string option"
  | Launch "string option"
  | Kill

datatype event =
    SandboxEv sandbox_op
  | ProviderEv request
  | ToolInvoked string tool_input
  | Slept "rat option"

text \<open>
  The outside world of one run. The code is sequential and awaits every call, so what
  the sandbox and the provider do in a run is the sequence of their replies: reply
  number \<open>n\<close> answers the \<open>n\<close>-th call made so far (counted from 0). A sandbox reply is
  an exception or a string (the sandbox id for \<open>Create\<close>, the base64 image for
  \<open>Screenshot\<close>, which stands for \<open>desktop.screenshot()\<close> followed by
  \<open>fs.readFileSync\<close>; ignored for the other operations). A provider reply is an
  exception or the list \<open>response.content\<close>.
\<close>

record world =
  sandbox_reply :: "nat \<Rightarrow> exn + string"
  provider_reply :: "nat \<Rightarrow> exn + content_block list"

record state =
  desktop :: "string option"
  conversationHistory :: "message list"
  trace :: "event list"

section \<open>Reading the trace\<close>

fun sandbox_ops :: "event list \<Rightarrow> sandbox_op list" where
  "sandbox_ops [] = []"
| "sandbox_ops (SandboxEv c # es) = c # sandbox_ops es"
| "sandbox_ops (_ # es) = sandbox_ops es"

fun provider_requests :: "event list \<Rightarrow> request list" where
  "provider_requests [] = []"
| "provider_requests (ProviderEv r # es) = r # provider_requests es"
| "provider_requests (_ # es) = provider_requests es"

fun executor_calls :: "event list \<Rightarrow> (string \<times> tool_input) list" where
  "executor_calls [] = []"
| "executor_calls (ToolInvoked n i # es) = (n, i) # executor_calls es"
| "executor_calls (_ # es) = executor_calls es"

section \<open>Remote calls\<close>

definition log_event :: "event \<Rightarrow> state \<Rightarrow> state" where
  "log_event e s = s\<lparr>trace := trace s @ [e]\<rparr>"

definition sandbox_call :: "world \<Rightarrow> sandbox_op \<Rightarrow> state \<Rightarrow> (exn + string) \<times> state" where
  "sandbox_call w c s =
     (sandbox_reply w (length (sandbox_ops (trace s))), log_event (SandboxEv c) s)"

text \<open>\<open>client.messages.create\<close>\<close>

definition messages_create ::
  "world \<Rightarrow> request \<Rightarrow> state \<Rightarrow> (exn + content_block list) \<times> state" where
  "messages_create w r s =
     (provider_reply w (length (provider_requests (trace s))), log_event (ProviderEv r) s)"

text \<open>\<open>this.sleep(ms)\<close>: a timer, which cannot fail.\<close>

definition sleep :: "rat option \<Rightarrow> state \<Rightarrow> state" where
  "sleep ms s = log_event (Slept ms) s"

section \<open>ComputerUseAgent (src/index.ts)\<close>

definition not_initialized :: exn where
  "not_initialized = JsError ''Desktop sandbox not initialized''"

definition initialize :: "world \<Rightarrow> state \<Rightarrow> (exn + unit) \<times> state" where
  "initialize w s =
     (case sandbox_call w Create s of
        (Inl e, s') \<Rightarrow> (Inl e, s')
      | (Inr sandboxId, s') \<Rightarrow> (Inr (), s'\<lparr>desktop := Some sandboxId\<rparr>))"

definition takeScreenshot :: "world \<Rightarrow> state \<Rightarrow> (exn + string) \<times> state" where
  "takeScreenshot w s =
     (if desktop s = None then (Inl not_initialized, s)
      else sandbox_call w Screenshot s)"

text \<open>\<open>cleanup\<close> kills the sandbox and swallows a failure of \<open>kill\<close>; it does not assign
  to \<open>this.desktop\<close>.\<close>

definition cleanup :: "world \<Rightarrow> state \<Rightarrow> state" where
  "cleanup w s =
     (if desktop s = None then s else snd (sandbox_call w Kill s))"

text \<open>\<open>Math.round\<close>: on a finite number the nearest integer, a tie going up; \<open>NaN\<close> on
  \<open>undefined\<close> and on \<open>NaN\<close>; \<open>Infinity\<close> and \<open>-Infinity\<close> are returned unchanged.\<close>

fun math_round :: "jsnum option \<Rightarrow> jsnum" where
  "math_round None = NaN"
| "math_round (Some (Num r)) = Num (of_int \<lfloor>r + 1 / 2\<rfloor>)"
| "math_round (Some NaN) = NaN"
| "math_round (Some PosInfinity) = PosInfinity"
| "math_round (Some NegInfinity) = NegInfinity"

text \<open>\<open>i < amount\<close> for the loop counter \<open>i\<close>: false when \<open>amount\<close> is \<open>undefined\<close>.\<close>

definition js_less :: "nat \<Rightarrow> rat option \<Rightarrow> bool" where
  "js_less i amount = (case amount of None \<Rightarrow> False | Some a \<Rightarrow> of_nat i < a)"

text \<open>\<open>for (let i = 0; i < amount; i++) { await this.desktop.press(key); }\<close>,
  left by the first \<open>press\<close> that throws.\<close>

function scroll_loop ::
  "world \<Rightarrow> string \<Rightarrow> rat option \<Rightarrow> nat \<Rightarrow> state \<Rightarrow> (exn + unit) \<times> state" where
  "scroll_loop w k amount i s =
     (if js_less i amount
      then (let r = sandbox_call w (Press (Some k)) s in
            case fst r of
              Inl e \<Rightarrow> (Inl e, snd r)
            | Inr _ \<Rightarrow> scroll_loop w k amount (Suc i) (snd r))
      else (Inr (), s))"
  by pat_completeness auto
termination
proof (relation "measure (\<lambda>(w, k, amount, i, s). case amount of None \<Rightarrow> 0 | Some a \<Rightarrow> nat \<lceil>a\<rceil> - i)")
  show "wf (measure (\<lambda>(w, k, amount, i, s). case amount of None \<Rightarrow> 0 | Some a \<Rightarrow> nat \<lceil>a\<rceil> - i))"
    by simp
next
  fix w :: world and k :: string and amount :: "rat option" and i :: nat and s :: state
    and r :: "(exn + string) \<times> state" and x2 :: string
  assume lt: "js_less i amount"
  then obtain a where a: "amount = Some a" and ia: "of_nat i < a"
    by (auto simp: js_less_def split: option.splits)
  from ia have "int i < \<lceil>a\<rceil>"
    by (metis less_ceiling_iff of_int_of_nat_eq)
  then have "nat \<lceil>a\<rceil> - Suc i < nat \<lceil>a\<rceil> - i"
    by linarith
  with a show "((w, k, amount, Suc i, snd r), (w, k, amount, i, s))
      \<in> measure (\<lambda>(w, k, amount, i, s). case amount of None \<Rightarrow> 0 | Some a \<Rightarrow> nat \<lceil>a\<rceil> - i)"
    by simp
qed

text \<open>
  The body of the \<open>try\<close> block of \<open>executeToolCall\<close>: a \<open>switch\<close> on the tool name. An
  exception thrown by the sandbox leaves the body as \<open>Inl\<close>.
\<close>

definition tool_switch ::
  "world \<Rightarrow> string \<Rightarrow> tool_input \<Rightarrow> state \<Rightarrow> (exn + tool_result) \<times> state" where
  "tool_switch w toolName toolInput s =
     (if toolName = ''screenshot'' then
        (case takeScreenshot w s of
           (Inl e, s') \<Rightarrow> (Inl e, s')
         | (Inr base64Image, s') \<Rightarrow> (Inr (SuccessImage base64Image), s'))
      else if toolName = ''click'' then
        (case sandbox_call w (Click (math_round (in_x toolInput)) (math_round (in_y toolInput))) s of
           (Inl e, s') \<Rightarrow> (Inl e, s')
         | (Inr _, s') \<Rightarrow> (Inr Success, s'))
      else if toolName = ''type'' then
        (case sandbox_call w (Write (in_text toolInput)) s of
           (Inl e, s') \<Rightarrow> (Inl e, s')
         | (Inr _, s') \<Rightarrow> (Inr Success, s'))
      else if toolName = ''key'' then
        (case sandbox_call w (Press (in_key toolInput)) s of
           (Inl e, s') \<Rightarrow> (Inl e, s')
         | (Inr _, s') \<Rightarrow> (Inr Success, s'))
      else if toolName = ''scroll'' then
        (case scroll_loop w
                (if in_direction toolInput = Some ''down'' then ''Page_Down'' else ''Page_Up'')
                (in_amount toolInput) 0 s of
           (Inl e, s') \<Rightarrow> (Inl e, s')
         | (Inr _, s') \<Rightarrow> (Inr Success, s'))
      else if toolName = ''launch_app'' then
        (case sandbox_call w (Launch (in_app toolInput)) s of
           (Inl e, s') \<Rightarrow> (Inl e, s')
         | (Inr _, s') \<Rightarrow> (Inr Success, sleep (Some 3000) s'))
      else if toolName = ''wait'' then
        (Inr Success, sleep (in_duration toolInput) s)
      else (Inr (ErrorResult (''Unknown tool: '' @ toolName)), s))"

text \<open>
  \<open>executeToolCall\<close>: the guard on \<open>this.desktop\<close> throws; inside the \<open>try\<close>, every
  exception is caught and returned as \<open>{error: message}\<close>. The invocation itself is
  recorded in the trace.
\<close>

definition executeToolCall ::
  "world \<Rightarrow> string \<Rightarrow> tool_input \<Rightarrow> state \<Rightarrow> (exn + tool_result) \<times> state" where
  "executeToolCall w toolName toolInput s =
     (let s0 = log_event (ToolInvoked toolName toolInput) s in
      if desktop s0 = None then (Inl not_initialized, s0)
      else (case tool_switch w toolName toolInput s0 of
              (Inl (JsError errorMessage), s') \<Rightarrow> (Inr (ErrorResult errorMessage), s')
            | (Inr result, s') \<Rightarrow> (Inr result, s')))"

text \<open>The names that the \<open>switch\<close> has a case for.\<close>

definition recognized_tools :: "string list" where
  "recognized_tools =
     [''screenshot'', ''click'', ''type'', ''key'', ''scroll'', ''launch_app'', ''wait'']"

section \<open>The turn loop: ComputerUseAgent.chat\<close>

text \<open>The history entry as it is sent: a string becomes one text block.\<close>

definition api_message :: "message \<Rightarrow> role \<times> content_block list" where
  "api_message msg =
     (role msg, case content msg of Blocks bs \<Rightarrow> bs | Str t \<Rightarrow> [TextBlock t])"

text \<open>The first request: the history, then a user entry with the image and a text
  part that is empty when the instruction equals the content of the last history entry.\<close>

definition first_request :: "string \<Rightarrow> string \<Rightarrow> message list \<Rightarrow> request" where
  "first_request userMessage screenshotBase64 history =
     \<lparr>req_system = AgentPrompt,
      req_messages = map api_message history @
        [(User, [ImageBlock screenshotBase64,
                 TextBlock (if Str userMessage = content (last history) then [] else userMessage)])]\<rparr>"

text \<open>The loop over \<open>response.content\<close>: text is appended to \<open>assistantMessage\<close>, a tool
  use is pushed on \<open>toolCalls\<close> as (id, name, input), any other block is skipped.\<close>

fun scan_response ::
  "content_block list \<Rightarrow> string \<Rightarrow> (string \<times> string \<times> tool_input) list
     \<Rightarrow> string \<times> (string \<times> string \<times> tool_input) list" where
  "scan_response [] assistantMessage toolCalls = (assistantMessage, toolCalls)"
| "scan_response (TextBlock t # bs) assistantMessage toolCalls =
     scan_response bs (assistantMessage @ t) toolCalls"
| "scan_response (ToolUseBlock i n inp # bs) assistantMessage toolCalls =
     scan_response bs assistantMessage (toolCalls @ [(i, n, inp)])"
| "scan_response (_ # bs) assistantMessage toolCalls =
     scan_response bs assistantMessage toolCalls"

text \<open>The loop over \<open>toolCalls\<close>: each call is executed and its result pushed on
  \<open>toolResults\<close> with the call's id.\<close>

fun run_tool_calls ::
  "world \<Rightarrow> (string \<times> string \<times> tool_input) list \<Rightarrow> (string \<times> tool_result) list \<Rightarrow> state
     \<Rightarrow> (exn + (string \<times> tool_result) list) \<times> state" where
  "run_tool_calls w [] toolResults s = (Inr toolResults, s)"
| "run_tool_calls w ((i, n, inp) # tcs) toolResults s =
     (case executeToolCall w n inp s of
        (Inl e, s') \<Rightarrow> (Inl e, s')
      | (Inr result, s') \<Rightarrow> run_tool_calls w tcs (toolResults @ [(i, result)]) s')"

text \<open>
  For reference: what \<open>executeToolCall\<close> returns for each call of a list when the calls
  are made one after the other from a state, each return paired with the identifier of
  its call. It stops at a call that throws.
\<close>

fun executor_returns ::
  "world \<Rightarrow> (string \<times> string \<times> tool_input) list \<Rightarrow> state \<Rightarrow> (string \<times> tool_result) list" where
  "executor_returns w [] s = []"
| "executor_returns w ((i, n, inp) # tcs) s =
     (case executeToolCall w n inp s of
        (Inl e, s') \<Rightarrow> []
      | (Inr result, s') \<Rightarrow> (i, result) # executor_returns w tcs s')"

text \<open>The loop over \<open>followUpResponse.content\<close>: each text block is appended after a
  newline; every other block is skipped.\<close>

fun append_followup :: "content_block list \<Rightarrow> string \<Rightarrow> string" where
  "append_followup [] assistantMessage = assistantMessage"
| "append_followup (TextBlock t # bs) assistantMessage =
     append_followup bs (assistantMessage @ [CHR 0x0A] @ t)"
| "append_followup (_ # bs) assistantMessage = append_followup bs assistantMessage"

definition followup_request :: "message list \<Rightarrow> (string \<times> tool_result) list \<Rightarrow> request" where
  "followup_request history toolResults =
     \<lparr>req_system = ContinuePrompt,
      req_messages = map api_message history @
        [(User, map (\<lambda>(i, result). ToolResultBlock i result) toolResults)]\<rparr>"

text \<open>The branch \<open>if (toolCalls.length > 0)\<close>: push the assistant turn with the
  response's blocks, ask the provider once more, append the text of its answer.\<close>

definition continue_with_results ::
  "world \<Rightarrow> content_block list \<Rightarrow> (string \<times> tool_result) list \<Rightarrow> string \<Rightarrow> state
     \<Rightarrow> (exn + string) \<times> state" where
  "continue_with_results w response toolResults assistantMessage s =
     (let s1 = s\<lparr>conversationHistory :=
                   conversationHistory s @ [\<lparr>role = Assistant, content = Blocks response\<rparr>]\<rparr> in
      case messages_create w (followup_request (conversationHistory s1) toolResults) s1 of
        (Inl e, s2) \<Rightarrow> (Inl e, s2)
      | (Inr followUpResponse, s2) \<Rightarrow>
          (Inr (append_followup followUpResponse assistantMessage), s2))"

definition fallback :: string where
  "fallback = ''Task completed. Ready for the next instruction.''"

text \<open>\<open>if (!assistantMessage) { assistantMessage = "Task completed. ..." }\<close>: the empty
  string is the only falsy string.\<close>

definition or_fallback :: "string \<Rightarrow> string" where
  "or_fallback assistantMessage = (if assistantMessage = [] then fallback else assistantMessage)"

text \<open>What \<open>chat\<close> does with the first response.\<close>

definition process_response ::
  "world \<Rightarrow> content_block list \<Rightarrow> state \<Rightarrow> (exn + string) \<times> state" where
  "process_response w response s =
     (case scan_response response [] [] of (assistantMessage, toolCalls) \<Rightarrow>
        (case run_tool_calls w toolCalls [] s of
           (Inl e, s1) \<Rightarrow> (Inl e, s1)
         | (Inr toolResults, s1) \<Rightarrow>
             (case (if toolCalls \<noteq> []
                    then continue_with_results w response toolResults assistantMessage s1
                    else (Inr assistantMessage, s1)) of
                (Inl e, s2) \<Rightarrow> (Inl e, s2)
              | (Inr assistantMessage', s2) \<Rightarrow>
                  (let final = or_fallback assistantMessage'
                   in (Inr final,
                       s2\<lparr>conversationHistory :=
                            conversationHistory s2 @ [\<lparr>role = Assistant, content = Str final\<rparr>]\<rparr>)))))"

definition chat :: "world \<Rightarrow> string \<Rightarrow> state \<Rightarrow> (exn + string) \<times> state" where
  "chat w userMessage s =
     (let s1 = s\<lparr>conversationHistory :=
                   conversationHistory s @ [\<lparr>role = User, content = Str userMessage\<rparr>]\<rparr> in
      case takeScreenshot w s1 of
        (Inl e, s2) \<Rightarrow> (Inl e, s2)
      | (Inr screenshotBase64, s2) \<Rightarrow>
          (case messages_create w
                  (first_request userMessage screenshotBase64 (conversationHistory s2)) s2 of
             (Inl e, s3) \<Rightarrow> (Inl e, s3)
           | (Inr response, s3) \<Rightarrow> process_response w response s3))"

section \<open>InteractiveComputerAgent.executeToolCall (src/interactive.ts)\<close>

text \<open>The interactive agent's executor has the same guard, the same \<open>catch\<close> and, case by
  case, the same statements in its \<open>switch\<close> as the one above, except for the scroll
  case: \<open>const { direction, amount = 3 } = toolInput\<close> and the loop bound
  \<open>amount || 3\<close>. Its other cases are therefore taken from \<open>tool_switch\<close>.\<close>

definition interactive_amount :: "rat option \<Rightarrow> rat option" where
  "interactive_amount amount =
     (let a = (case amount of None \<Rightarrow> 3 | Some v \<Rightarrow> v) in Some (if a = 0 then 3 else a))"

definition interactive_tool_switch ::
  "world \<Rightarrow> string \<Rightarrow> tool_input \<Rightarrow> state \<Rightarrow> (exn + tool_result) \<times> state" where
  "interactive_tool_switch w toolName toolInput s =
     (if toolName = ''scroll'' then
        (case scroll_loop w
                (if in_direction toolInput = Some ''down'' then ''Page_Down'' else ''Page_Up'')
                (interactive_amount (in_amount toolInput)) 0 s of
           (Inl e, s') \<Rightarrow> (Inl e, s')
         | (Inr _, s') \<Rightarrow> (Inr Success, s'))
      else tool_switch w toolName toolInput s)"

definition interactive_executeToolCall ::
  "world \<Rightarrow> string \<Rightarrow> tool_input \<Rightarrow> state \<Rightarrow> (exn + tool_result) \<times> state" where
  "interactive_executeToolCall w toolName toolInput s =
     (let s0 = log_event (ToolInvoked toolName toolInput) s in
      if desktop s0 = None then (Inl not_initialized, s0)
      else (case interactive_tool_switch w toolName toolInput s0 of
              (Inl (JsError errorMessage), s') \<Rightarrow> (Inr (ErrorResult errorMessage), s')
            | (Inr result, s') \<Rightarrow> (Inr result, s')))"

section \<open>Reading a response\<close>

text \<open>The action requests of a response, in the order they appear, as (id, name, input),
  and its text fragments in order.\<close>

fun tool_uses :: "content_block list \<Rightarrow> (string \<times> string \<times> tool_input) list" where
  "tool_uses [] = []"
| "tool_uses (ToolUseBlock i n inp # bs) = (i, n, inp) # tool_uses bs"
| "tool_uses (_ # bs) = tool_uses bs"

fun text_fragments :: "content_block list \<Rightarrow> string list" where
  "text_fragments [] = []"
| "text_fragments (TextBlock t # bs) = t # text_fragments bs"
| "text_fragments (_ # bs) = text_fragments bs"

section \<open>Concrete agents and worlds\<close>

definition no_input :: tool_input where
  "no_input = \<lparr>in_x = None, in_y = None, in_text = None, in_key = None,
                in_direction = None, in_amount = None, in_app = None, in_duration = None\<rparr>"

text \<open>A new agent, and an agent after a successful \<open>initialize\<close>.\<close>

definition fresh :: state where
  "fresh = \<lparr>desktop = None, conversationHistory = [], trace = []\<rparr>"

definition ready :: state where
  "ready = \<lparr>desktop = Some ''sbx-1'', conversationHistory = [], trace = [SandboxEv Create]\<rparr>"

text \<open>A sandbox that always answers, and a provider that first asks for a screenshot and
  then answers with the text "Done.".\<close>

definition screenshot_world :: world where
  "screenshot_world =
     \<lparr>sandbox_reply = (\<lambda>n. Inr ''iVBORw0KGgo=''),
      provider_reply = (\<lambda>n. if n = 0 then Inr [ToolUseBlock ''toolu_1'' ''screenshot'' no_input]
                             else Inr [TextBlock ''Done.''])\<rparr>"

text \<open>A scroll request with a direction and no amount.\<close>

definition scroll_down_input :: tool_input where
  "scroll_down_input = no_input\<lparr>in_direction := Some ''down''\<rparr>"

text \<open>A sandbox that is created, is killed, and then rejects every call.\<close>

definition killed_world :: world where
  "killed_world =
     \<lparr>sandbox_reply = (\<lambda>n. if n = 0 then Inr ''sbx-1'' else if n = 1 then Inr []
                            else Inl (JsError ''The sandbox was not found'')),
      provider_reply = (\<lambda>n. Inr [TextBlock ''Done.''])\<rparr>"

text \<open>A click request with fractional coordinates (2.5, -1.75).\<close>

definition click_input :: tool_input where
  "click_input = no_input\<lparr>in_x := Some (Num (5 / 2)), in_y := Some (Num (- 7 / 4))\<rparr>"

text \<open>A provider that answers every request with the text "hello".\<close>

definition text_world :: world where
  "text_world =
     \<lparr>sandbox_reply = (\<lambda>n. Inr ''iVBORw0KGgo=''),
      provider_reply = (\<lambda>n. Inr [TextBlock ''hello''])\<rparr>"


section \<open>The trace projections distribute over append\<close>

lemma sandbox_ops_append: "sandbox_ops (a @ b) = sandbox_ops a @ sandbox_ops b"
  by (induction a rule: sandbox_ops.induct) simp_all

lemma provider_requests_append:
  "provider_requests (a @ b) = provider_requests a @ provider_requests b"
  by (induction a rule: provider_requests.induct) simp_all

lemma executor_calls_append: "executor_calls (a @ b) = executor_calls a @ executor_calls b"
  by (induction a rule: executor_calls.induct) simp_all

lemma scan_response_eq:
  "scan_response bs m tcs = (m @ concat (text_fragments bs), tcs @ tool_uses bs)"
  by (induction bs m tcs rule: scan_response.induct) simp_all

lemma append_followup_eq:
  "append_followup bs m = m @ concat (map (\<lambda>t. CHR 0x0A # t) (text_fragments bs))"
  by (induction bs m rule: append_followup.induct) simp_all

lemma scroll_loop_quiet:
  "\<exists>ext. snd (scroll_loop w k amount i s) = s\<lparr>trace := trace s @ ext\<rparr>
     \<and> executor_calls ext = [] \<and> provider_requests ext = []"
proof (induction w k amount i s rule: scroll_loop.induct)
  case (1 w k amount i s)
  show ?case
  proof (cases "js_less i amount")
    case False
    then have "snd (scroll_loop w k amount i s) = s\<lparr>trace := trace s @ []\<rparr>"
      by simp
    then show ?thesis by (metis executor_calls.simps(1) provider_requests.simps(1))
  next
    case True
    let ?r = "sandbox_call w (Press (Some k)) s"
    have sr: "snd ?r = s\<lparr>trace := trace s @ [SandboxEv (Press (Some k))]\<rparr>"
      by (simp add: sandbox_call_def log_event_def)
    show ?thesis
    proof (cases "fst ?r")
      case (Inl e)
      with True have "snd (scroll_loop w k amount i s) = snd ?r"
        by (simp add: Let_def)
      with sr show ?thesis
        by (intro exI[of _ "[SandboxEv (Press (Some k))]"]) simp
    next
      case (Inr v)
      from "1.IH"[OF True refl Inr] obtain ext where
        e: "snd (scroll_loop w k amount (Suc i) (snd ?r)) = (snd ?r)\<lparr>trace := trace (snd ?r) @ ext\<rparr>"
        and q: "executor_calls ext = []" "provider_requests ext = []"
        by blast
      from True Inr have "snd (scroll_loop w k amount i s) = snd (scroll_loop w k amount (Suc i) (snd ?r))"
        by (simp add: Let_def)
      with e sr have "snd (scroll_loop w k amount i s) = s\<lparr>trace := trace s @ (SandboxEv (Press (Some k)) # ext)\<rparr>"
        by simp
      with q show ?thesis
        by (intro exI[of _ "SandboxEv (Press (Some k)) # ext"]) simp
    qed
  qed
qed

section \<open>The executor of an initialized agent returns and calls neither itself nor the provider\<close>

lemma sandbox_call_snd:
  "snd (sandbox_call w c s) = s\<lparr>trace := trace s @ [SandboxEv c]\<rparr>"
  by (simp add: sandbox_call_def log_event_def)

lemma takeScreenshot_quiet:
  "\<exists>ext. snd (takeScreenshot w s) = s\<lparr>trace := trace s @ ext\<rparr>
     \<and> executor_calls ext = [] \<and> provider_requests ext = []"
proof (cases "desktop s = None")
  case True
  then have "snd (takeScreenshot w s) = s\<lparr>trace := trace s @ []\<rparr>"
    by (simp add: takeScreenshot_def)
  then show ?thesis by (metis executor_calls.simps(1) provider_requests.simps(1))
next
  case False
  then have "snd (takeScreenshot w s) = s\<lparr>trace := trace s @ [SandboxEv Screenshot]\<rparr>"
    by (simp add: takeScreenshot_def sandbox_call_snd)
  then show ?thesis
    by (intro exI[of _ "[SandboxEv Screenshot]"]) simp
qed

lemma tool_switch_quiet:
  "\<exists>ext. snd (tool_switch w n inp s) = s\<lparr>trace := trace s @ ext\<rparr>
     \<and> executor_calls ext = [] \<and> provider_requests ext = []"
proof -
  have nil: "\<And>x. x = s \<Longrightarrow> \<exists>ext. x = s\<lparr>trace := trace s @ ext\<rparr>
     \<and> executor_calls ext = [] \<and> provider_requests ext = []"
    by (rule exI[of _ "[]"]) simp
  have one: "\<And>x c. x = s\<lparr>trace := trace s @ [SandboxEv c]\<rparr> \<Longrightarrow> \<exists>ext. x = s\<lparr>trace := trace s @ ext\<rparr>
     \<and> executor_calls ext = [] \<and> provider_requests ext = []"
    subgoal for x c by (rule exI[of _ "[SandboxEv c]"]) simp
    done
  have sb: "\<And>c R. \<exists>ext. snd (case sandbox_call w c s of (Inl e, s') \<Rightarrow> (Inl e, s')
                | (Inr v, s') \<Rightarrow> (Inr R, s')) = s\<lparr>trace := trace s @ ext\<rparr>
     \<and> executor_calls ext = [] \<and> provider_requests ext = []"
    subgoal for c R
      using sandbox_call_snd[of w c s]
      by (intro one[of _ c]) (cases "sandbox_call w c s", auto split: sum.splits)
    done
  consider (a) "n = ''screenshot''" | (b) "n = ''click''" | (c) "n = ''type''" | (d) "n = ''key''"
    | (e) "n = ''scroll''" | (f) "n = ''launch_app''" | (g) "n = ''wait''"
    | (h) "n \<notin> set recognized_tools"
    by (auto simp: recognized_tools_def)
  then show ?thesis
  proof cases
    case a
    have "snd (tool_switch w n inp s) = snd (takeScreenshot w s)"
      using a by (simp add: tool_switch_def split: prod.splits sum.splits)
    then show ?thesis using takeScreenshot_quiet[of w s] by simp
  next
    case b
    then show ?thesis using sb by (simp add: tool_switch_def)
  next
    case c
    then show ?thesis using sb by (simp add: tool_switch_def)
  next
    case d
    then show ?thesis using sb by (simp add: tool_switch_def)
  next
    case e
    have "snd (tool_switch w n inp s) = snd (scroll_loop w
                (if in_direction inp = Some ''down'' then ''Page_Down'' else ''Page_Up'')
                (in_amount inp) 0 s)"
      using e by (simp add: tool_switch_def split: prod.splits sum.splits)
    then show ?thesis using scroll_loop_quiet by simp
  next
    case f
    let ?s1 = "s\<lparr>trace := trace s @ [SandboxEv (Launch (in_app inp))]\<rparr>"
    have "snd (tool_switch w n inp s) = ?s1 \<or> snd (tool_switch w n inp s) = sleep (Some 3000) ?s1"
      using f sandbox_call_snd[of w "Launch (in_app inp)" s]
      by (cases "sandbox_call w (Launch (in_app inp)) s") (auto simp: tool_switch_def split: sum.splits)
    then show ?thesis
    proof
      assume "snd (tool_switch w n inp s) = ?s1"
      then show ?thesis by (rule one)
    next
      assume "snd (tool_switch w n inp s) = sleep (Some 3000) ?s1"
      then have "snd (tool_switch w n inp s) = s\<lparr>trace := trace s @ [SandboxEv (Launch (in_app inp)), Slept (Some 3000)]\<rparr>"
        by (simp add: sleep_def log_event_def)
      then show ?thesis
        by (intro exI[of _ "[SandboxEv (Launch (in_app inp)), Slept (Some 3000)]"]) simp
    qed
  next
    case g
    then have "snd (tool_switch w n inp s) = s\<lparr>trace := trace s @ [Slept (in_duration inp)]\<rparr>"
      by (simp add: tool_switch_def sleep_def log_event_def)
    then show ?thesis
      by (intro exI[of _ "[Slept (in_duration inp)]"]) simp
  next
    case h
    then have "snd (tool_switch w n inp s) = s"
      by (auto simp: tool_switch_def recognized_tools_def)
    then show ?thesis by (rule nil)
  qed
qed

lemma executeToolCall_initialized:
  assumes "desktop s = Some h"
  shows "\<exists>r ext. executeToolCall w n inp s = (Inr r, s\<lparr>trace := trace s @ ToolInvoked n inp # ext\<rparr>)
           \<and> executor_calls ext = [] \<and> provider_requests ext = []"
proof -
  let ?s0 = "log_event (ToolInvoked n inp) s"
  have s0: "?s0 = s\<lparr>trace := trace s @ [ToolInvoked n inp]\<rparr>"
    by (simp add: log_event_def)
  from tool_switch_quiet[of w n inp ?s0] obtain ext where
    e: "snd (tool_switch w n inp ?s0) = ?s0\<lparr>trace := trace ?s0 @ ext\<rparr>"
    and q: "executor_calls ext = []" "provider_requests ext = []"
    by blast
  have d: "desktop ?s0 \<noteq> None" using assms by (simp add: log_event_def)
  have "\<exists>r. fst (executeToolCall w n inp s) = Inr r"
    using d by (cases "tool_switch w n inp ?s0")
      (auto simp: executeToolCall_def Let_def split: sum.splits exn.splits)
  then obtain r where "fst (executeToolCall w n inp s) = Inr r" ..
  moreover have "snd (executeToolCall w n inp s) = snd (tool_switch w n inp ?s0)"
    using d by (cases "tool_switch w n inp ?s0")
      (auto simp: executeToolCall_def Let_def split: sum.splits exn.splits)
  ultimately have "executeToolCall w n inp s = (Inr r, s\<lparr>trace := trace s @ ToolInvoked n inp # ext\<rparr>)"
    using e s0 by (simp add: prod_eq_iff)
  with q show ?thesis by blast
qed

section \<open>Processing the first response\<close>

lemma run_tool_calls_initialized:
  "desktop s = Some h \<Longrightarrow>
   \<exists>results ext. run_tool_calls w tcs acc s = (Inr (acc @ results), s\<lparr>trace := trace s @ ext\<rparr>)
      \<and> results = executor_returns w tcs s
      \<and> map fst results = map fst tcs
      \<and> executor_calls ext = map snd tcs \<and> provider_requests ext = []"
proof (induction tcs arbitrary: acc s)
  case Nil
  have "run_tool_calls w [] acc s = (Inr (acc @ []), s\<lparr>trace := trace s @ []\<rparr>)"
    by simp
  moreover have "[] = executor_returns w [] s" by simp
  ultimately show ?case
    by (metis executor_calls.simps(1) provider_requests.simps(1) list.map(1))
next
  case (Cons tc tcs)
  obtain i n inp where tc: "tc = (i, n, inp)" by (cases tc) auto
  from executeToolCall_initialized[OF Cons.prems, of w n inp] obtain r ext1 where
    ex: "executeToolCall w n inp s = (Inr r, s\<lparr>trace := trace s @ ToolInvoked n inp # ext1\<rparr>)"
    and q1: "executor_calls ext1 = []" "provider_requests ext1 = []"
    by blast
  let ?s1 = "s\<lparr>trace := trace s @ ToolInvoked n inp # ext1\<rparr>"
  have d1: "desktop ?s1 = Some h" using Cons.prems by simp
  from Cons.IH[OF d1, of "acc @ [(i, r)]"] obtain results ext2 where
    run: "run_tool_calls w tcs (acc @ [(i, r)]) ?s1
            = (Inr ((acc @ [(i, r)]) @ results), ?s1\<lparr>trace := trace ?s1 @ ext2\<rparr>)"
    and ret: "results = executor_returns w tcs ?s1"
    and ids: "map fst results = map fst tcs"
    and q2: "executor_calls ext2 = map snd tcs" "provider_requests ext2 = []"
    by blast
  have "run_tool_calls w (tc # tcs) acc s
          = (Inr (acc @ (i, r) # results), s\<lparr>trace := trace s @ (ToolInvoked n inp # ext1 @ ext2)\<rparr>)"
    using tc ex run by simp
  moreover have "(i, r) # results = executor_returns w (tc # tcs) s"
    using tc ex ret by simp
  moreover have "map fst ((i, r) # results) = map fst (tc # tcs)"
    using tc ids by simp
  moreover have "executor_calls (ToolInvoked n inp # ext1 @ ext2) = map snd (tc # tcs)"
    using tc q1 q2 by (simp add: executor_calls_append)
  moreover have "provider_requests (ToolInvoked n inp # ext1 @ ext2) = []"
    using q1 q2 by (simp add: provider_requests_append)
  ultimately show ?case by blast
qed

lemma process_response_no_tools:
  assumes "tool_uses resp = []"
  shows "process_response w resp s =
           (Inr (or_fallback (concat (text_fragments resp))),
            s\<lparr>conversationHistory := conversationHistory s @
                 [\<lparr>role = Assistant, content = Str (or_fallback (concat (text_fragments resp)))\<rparr>]\<rparr>)"
  using assms by (simp add: process_response_def scan_response_eq or_fallback_def Let_def)

lemma process_response_tools:
  assumes d: "desktop s = Some h" and t: "tool_uses resp \<noteq> []"
  shows "\<exists>results ext.
      results = executor_returns w (tool_uses resp) s
    \<and> map fst results = map fst (tool_uses resp)
    \<and> executor_calls ext = map snd (tool_uses resp) \<and> provider_requests ext = []
    \<and> process_response w resp s =
        (case provider_reply w (length (provider_requests (trace s))) of
           Inl e \<Rightarrow>
             (Inl e,
              s\<lparr>conversationHistory := conversationHistory s @ [\<lparr>role = Assistant, content = Blocks resp\<rparr>],
                trace := trace s @ ext @
                  [ProviderEv (followup_request
                     (conversationHistory s @ [\<lparr>role = Assistant, content = Blocks resp\<rparr>]) results)]\<rparr>)
         | Inr resp2 \<Rightarrow>
             (Inr (or_fallback (append_followup resp2 (concat (text_fragments resp)))),
              s\<lparr>conversationHistory := conversationHistory s @
                  [\<lparr>role = Assistant, content = Blocks resp\<rparr>,
                   \<lparr>role = Assistant,
                    content = Str (or_fallback (append_followup resp2 (concat (text_fragments resp))))\<rparr>],
                trace := trace s @ ext @
                  [ProviderEv (followup_request
                     (conversationHistory s @ [\<lparr>role = Assistant, content = Blocks resp\<rparr>]) results)]\<rparr>))"
proof -
  from run_tool_calls_initialized[OF d, of w "tool_uses resp" "[]"] obtain results ext where
    run: "run_tool_calls w (tool_uses resp) [] s = (Inr results, s\<lparr>trace := trace s @ ext\<rparr>)"
    and ret: "results = executor_returns w (tool_uses resp) s"
    and ids: "map fst results = map fst (tool_uses resp)"
    and q: "executor_calls ext = map snd (tool_uses resp)" "provider_requests ext = []"
    by auto
  have "process_response w resp s =
        (case provider_reply w (length (provider_requests (trace s))) of
           Inl e \<Rightarrow>
             (Inl e,
              s\<lparr>conversationHistory := conversationHistory s @ [\<lparr>role = Assistant, content = Blocks resp\<rparr>],
                trace := trace s @ ext @
                  [ProviderEv (followup_request
                     (conversationHistory s @ [\<lparr>role = Assistant, content = Blocks resp\<rparr>]) results)]\<rparr>)
         | Inr resp2 \<Rightarrow>
             (Inr (or_fallback (append_followup resp2 (concat (text_fragments resp)))),
              s\<lparr>conversationHistory := conversationHistory s @
                  [\<lparr>role = Assistant, content = Blocks resp\<rparr>,
                   \<lparr>role = Assistant,
                    content = Str (or_fallback (append_followup resp2 (concat (text_fragments resp))))\<rparr>],
                trace := trace s @ ext @
                  [ProviderEv (followup_request
                     (conversationHistory s @ [\<lparr>role = Assistant, content = Blocks resp\<rparr>]) results)]\<rparr>))"
    using t run q(2)
    by (simp add: process_response_def scan_response_eq continue_with_results_def
        messages_create_def log_event_def provider_requests_append or_fallback_def Let_def
        split: sum.splits)
  with ret ids q show ?thesis by blast
qed

section \<open>The three ways out of chat before a response is processed\<close>

lemma first_request_eq:
  "first_request msg img (H @ [\<lparr>role = User, content = Str msg\<rparr>]) =
     \<lparr>req_system = AgentPrompt,
      req_messages = map api_message H @
        [(User, [TextBlock msg]), (User, [ImageBlock img, TextBlock []])]\<rparr>"
  by (simp add: first_request_def api_message_def)

lemma chat_not_initialized:
  assumes "desktop s = None"
  shows "chat w msg s =
    (Inl not_initialized,
     s\<lparr>conversationHistory := conversationHistory s @ [\<lparr>role = User, content = Str msg\<rparr>]\<rparr>)"
  using assms by (simp add: chat_def takeScreenshot_def Let_def)

lemma chat_screenshot_fails:
  assumes "desktop s = Some h" and "sandbox_reply w (length (sandbox_ops (trace s))) = Inl e"
  shows "chat w msg s =
    (Inl e,
     s\<lparr>conversationHistory := conversationHistory s @ [\<lparr>role = User, content = Str msg\<rparr>],
       trace := trace s @ [SandboxEv Screenshot]\<rparr>)"
  using assms by (simp add: chat_def takeScreenshot_def sandbox_call_def log_event_def Let_def)

lemma chat_provider_fails:
  assumes "desktop s = Some h" and "sandbox_reply w (length (sandbox_ops (trace s))) = Inr img"
    and "provider_reply w (length (provider_requests (trace s))) = Inl e"
  shows "chat w msg s =
    (Inl e,
     s\<lparr>conversationHistory := conversationHistory s @ [\<lparr>role = User, content = Str msg\<rparr>],
       trace := trace s @ [SandboxEv Screenshot,
         ProviderEv (first_request msg img
           (conversationHistory s @ [\<lparr>role = User, content = Str msg\<rparr>]))]\<rparr>)"
  using assms
  by (simp add: chat_def takeScreenshot_def sandbox_call_def messages_create_def log_event_def
      provider_requests_append Let_def)

lemma chat_first_response:
  assumes "desktop s = Some h" and "sandbox_reply w (length (sandbox_ops (trace s))) = Inr img"
    and "provider_reply w (length (provider_requests (trace s))) = Inr resp"
  shows "chat w msg s =
    process_response w resp
     (s\<lparr>conversationHistory := conversationHistory s @ [\<lparr>role = User, content = Str msg\<rparr>],
       trace := trace s @ [SandboxEv Screenshot,
         ProviderEv (first_request msg img
           (conversationHistory s @ [\<lparr>role = User, content = Str msg\<rparr>]))]\<rparr>)"
  using assms
  by (simp add: chat_def takeScreenshot_def sandbox_call_def messages_create_def log_event_def
      provider_requests_append Let_def)

lemma chat_success_cases:
  assumes "chat w msg s = (Inr out, s')"
  shows "\<exists>h img resp. desktop s = Some h
     \<and> sandbox_reply w (length (sandbox_ops (trace s))) = Inr img
     \<and> provider_reply w (length (provider_requests (trace s))) = Inr resp"
proof -
  obtain h where h: "desktop s = Some h"
    using assms chat_not_initialized[of s w msg] by (cases "desktop s") auto
  obtain img where i: "sandbox_reply w (length (sandbox_ops (trace s))) = Inr img"
    using assms chat_screenshot_fails[OF h, of w _ msg]
    by (cases "sandbox_reply w (length (sandbox_ops (trace s)))") auto
  obtain resp where "provider_reply w (length (provider_requests (trace s))) = Inr resp"
    using assms chat_provider_fails[OF h i, of _ msg]
    by (cases "provider_reply w (length (provider_requests (trace s)))") auto
  with h i show ?thesis by blast
qed

section \<open>The executor\<close>

text \<open>
  Claim C5. On an initialized agent, a tool call whose name is none of the recognized
  names does not throw: it returns the error object \<open>{error: "Unknown tool: <name>"}\<close>,
  which holds the name as given, and it touches neither the sandbox nor the provider
  (the only new trace entry is the invocation itself). This holds for the executor of
  \<open>ComputerUseAgent\<close> and for the one of \<open>InteractiveComputerAgent\<close>.
\<close>

theorem unknown_tool_structured_error:
  assumes "desktop s = Some h" and "toolName \<notin> set recognized_tools"
  shows "executeToolCall w toolName toolInput s =
           (Inr (ErrorResult (''Unknown tool: '' @ toolName)),
            log_event (ToolInvoked toolName toolInput) s)
       \<and> interactive_executeToolCall w toolName toolInput s =
           (Inr (ErrorResult (''Unknown tool: '' @ toolName)),
            log_event (ToolInvoked toolName toolInput) s)"
  using assms
  by (simp add: executeToolCall_def interactive_executeToolCall_def interactive_tool_switch_def
      tool_switch_def recognized_tools_def log_event_def Let_def)

text \<open>The tool name "drag" on an initialized agent.\<close>

theorem unknown_tool_structured_error_witness:
  "desktop ready = Some ''sbx-1'' \<and> ''drag'' \<notin> set recognized_tools
   \<and> executeToolCall screenshot_world ''drag'' no_input ready =
        (Inr (ErrorResult ''Unknown tool: drag''), log_event (ToolInvoked ''drag'' no_input) ready)
   \<and> interactive_executeToolCall screenshot_world ''drag'' no_input ready =
        (Inr (ErrorResult ''Unknown tool: drag''), log_event (ToolInvoked ''drag'' no_input) ready)"
proof -
  have d: "desktop ready = Some ''sbx-1''" by (simp add: ready_def)
  have u: "''drag'' \<notin> set recognized_tools" by (simp add: recognized_tools_def)
  show ?thesis
    using d u unknown_tool_structured_error[OF d u, of screenshot_world no_input] by simp
qed

text \<open>
  Claim C7. A scroll request with direction "down" and no amount, run by
  \<open>ComputerUseAgent.executeToolCall\<close> on an initialized agent: the loop condition
  \<open>0 < undefined\<close> is false, so no key is pressed and the call reports success. The
  interactive agent's executor, which defaults the amount to 3, presses Page_Down three
  times on the same request.
\<close>

theorem scroll_without_amount_presses_nothing:
  "executeToolCall screenshot_world ''scroll'' scroll_down_input ready =
     (Inr Success, log_event (ToolInvoked ''scroll'' scroll_down_input) ready)
   \<and> sandbox_ops (trace (snd (executeToolCall screenshot_world ''scroll'' scroll_down_input ready)))
       = [Create]
   \<and> sandbox_ops (trace (snd (interactive_executeToolCall screenshot_world ''scroll''
          scroll_down_input ready)))
       = [Create, Press (Some ''Page_Down''), Press (Some ''Page_Down''), Press (Some ''Page_Down'')]"
  by (simp add: executeToolCall_def interactive_executeToolCall_def interactive_tool_switch_def
      tool_switch_def log_event_def Let_def ready_def scroll_down_input_def no_input_def
      js_less_def interactive_amount_def sandbox_call_def screenshot_world_def)

text \<open>
  Claim C4. After a successful \<open>initialize\<close> followed by \<open>cleanup\<close>, the handle is
  still set: \<open>takeScreenshot\<close> passes the guard, calls the killed sandbox and fails with
  the sandbox's error, not with the not-initialized error.
\<close>

theorem screenshot_after_cleanup_contacts_sandbox:
  "fst (initialize killed_world fresh) = Inr ()
   \<and> takeScreenshot killed_world (cleanup killed_world (snd (initialize killed_world fresh)))
       = (Inl (JsError ''The sandbox was not found''),
          \<lparr>desktop = Some ''sbx-1'', conversationHistory = [],
           trace = [SandboxEv Create, SandboxEv Kill, SandboxEv Screenshot]\<rparr>)"
  by (simp add: initialize_def cleanup_def takeScreenshot_def sandbox_call_def log_event_def
      killed_world_def fresh_def)

text \<open>Before \<open>initialize\<close> the guard holds: each operation fails with the
  not-initialized error and the sandbox is not called.\<close>

lemma not_initialized_before_initialize:
  assumes "desktop s = None"
  shows "takeScreenshot w s = (Inl not_initialized, s)"
    and "fst (executeToolCall w n inp s) = Inl not_initialized"
    and "sandbox_ops (trace (snd (executeToolCall w n inp s))) = sandbox_ops (trace s)"
    and "fst (chat w msg s) = Inl not_initialized"
    and "trace (snd (chat w msg s)) = trace s"
  using assms
  by (simp_all add: takeScreenshot_def executeToolCall_def log_event_def Let_def
      chat_not_initialized sandbox_ops_append)

text \<open>
  Claim C10, as stated, fails: a click request without coordinates on an initialized
  agent reaches the sandbox as a click at (NaN, NaN), and success is reported; a click
  request whose \<open>x\<close> was parsed to \<open>Infinity\<close> reaches it with \<open>Infinity\<close> as \<open>x\<close>.
\<close>

theorem click_without_coordinates_sends_nan:
  "executeToolCall screenshot_world ''click'' no_input ready =
     (Inr Success,
      ready\<lparr>trace := [SandboxEv Create, ToolInvoked ''click'' no_input,
                       SandboxEv (Click NaN NaN)]\<rparr>)
   \<and> sandbox_ops (trace (snd (executeToolCall screenshot_world ''click''
         (no_input\<lparr>in_x := Some PosInfinity, in_y := Some (Num 0)\<rparr>) ready)))
       = [Create, Click PosInfinity (Num 0)]"
  by (simp add: executeToolCall_def tool_switch_def sandbox_call_def log_event_def
      screenshot_world_def ready_def no_input_def Let_def floor_eq_iff)

text \<open>
  Claim C10, amended. On an initialized agent, a click request that carries finite
  numbers \<open>x\<close> and \<open>y\<close> reaches the sandbox as exactly one click whose coordinates are
  integers: the integers nearest to \<open>x\<close> and to \<open>y\<close> (at most 1/2 away, a tie going
  up), whatever the fractional parts are and whether or not the sandbox then fails.
\<close>

theorem click_rounds_coordinates:
  assumes "desktop s = Some h"
    and "in_x toolInput = Some (Num x)" and "in_y toolInput = Some (Num y)"
  shows "\<exists>i j :: int.
      sandbox_ops (trace (snd (executeToolCall w ''click'' toolInput s)))
        = sandbox_ops (trace s) @ [Click (Num (of_int i)) (Num (of_int j))]
    \<and> i = \<lfloor>x + 1 / 2\<rfloor> \<and> j = \<lfloor>y + 1 / 2\<rfloor>
    \<and> \<bar>of_int i - x\<bar> \<le> 1 / 2 \<and> \<bar>of_int j - y\<bar> \<le> 1 / 2"
proof -
  have near: "\<bar>of_int \<lfloor>r + 1 / 2\<rfloor> - r\<bar> \<le> 1 / 2" for r :: rat
    by linarith
  have "snd (executeToolCall w ''click'' toolInput s) =
      s\<lparr>trace := trace s @ [ToolInvoked ''click'' toolInput,
           SandboxEv (Click (Num (of_int \<lfloor>x + 1 / 2\<rfloor>)) (Num (of_int \<lfloor>y + 1 / 2\<rfloor>)))]\<rparr>"
    using assms
    by (cases "sandbox_reply w (length (sandbox_ops (trace s)))")
       (auto simp: executeToolCall_def tool_switch_def sandbox_call_def log_event_def
          sandbox_ops_append Let_def split: exn.splits)
  then have "sandbox_ops (trace (snd (executeToolCall w ''click'' toolInput s)))
        = sandbox_ops (trace s) @ [Click (Num (of_int \<lfloor>x + 1 / 2\<rfloor>)) (Num (of_int \<lfloor>y + 1 / 2\<rfloor>))]"
    by (simp add: sandbox_ops_append)
  with near[of x] near[of y] show ?thesis by blast
qed

text \<open>The click at (2.5, -1.75) reaches the sandbox as the click at (3, -2).\<close>

theorem click_rounds_coordinates_witness:
  "desktop ready = Some ''sbx-1'' \<and> in_x click_input = Some (Num (5 / 2))
   \<and> in_y click_input = Some (Num (- 7 / 4))
   \<and> sandbox_ops (trace (snd (executeToolCall screenshot_world ''click'' click_input ready)))
        = [Create, Click (Num 3) (Num (- 2))]"
proof -
  have d: "desktop ready = Some ''sbx-1''" by (simp add: ready_def)
  have x: "in_x click_input = Some (Num (5 / 2))" by (simp add: click_input_def no_input_def)
  have y: "in_y click_input = Some (Num (- 7 / 4))" by (simp add: click_input_def no_input_def)
  have fx: "\<lfloor>(5::rat) / 2 + 1 / 2\<rfloor> = 3" by (simp add: floor_eq_iff)
  have fy: "\<lfloor>- (7::rat) / 4 + 1 / 2\<rfloor> = - 2" by (simp add: floor_eq_iff)
  from click_rounds_coordinates[OF d x y, of screenshot_world] obtain i j :: int where
    "sandbox_ops (trace (snd (executeToolCall screenshot_world ''click'' click_input ready)))
        = sandbox_ops (trace ready) @ [Click (Num (of_int i)) (Num (of_int j))]"
    and "i = \<lfloor>(5::rat) / 2 + 1 / 2\<rfloor>" and "j = \<lfloor>- (7::rat) / 4 + 1 / 2\<rfloor>"
    by blast
  with fx fy have "sandbox_ops (trace (snd (executeToolCall screenshot_world ''click'' click_input ready)))
        = [Create, Click (Num 3) (Num (- 2))]"
    by (simp add: ready_def)
  with d x y show ?thesis by blast
qed

section \<open>The turn loop\<close>

text \<open>The trace of a turn whose first request was answered: the screenshot, the first
  request, the tool executions, and the follow-up request when there were tool calls.\<close>

lemma chat_trace_shape:
  assumes d: "desktop s = Some h"
    and i: "sandbox_reply w (length (sandbox_ops (trace s))) = Inr img"
    and r: "provider_reply w (length (provider_requests (trace s))) = Inr resp"
  shows "\<exists>results ext.
      map fst results = map fst (tool_uses resp)
    \<and> executor_calls ext = map snd (tool_uses resp) \<and> provider_requests ext = []
    \<and> trace (snd (chat w msg s)) =
        trace s @
        [SandboxEv Screenshot,
         ProviderEv (first_request msg img
           (conversationHistory s @ [\<lparr>role = User, content = Str msg\<rparr>]))] @ ext @
        (if tool_uses resp = [] then []
         else [ProviderEv (followup_request
                 (conversationHistory s @
                   [\<lparr>role = User, content = Str msg\<rparr>, \<lparr>role = Assistant, content = Blocks resp\<rparr>])
                 results)])"
proof (cases "tool_uses resp = []")
  case True
  have "trace (snd (chat w msg s)) =
        trace s @
        [SandboxEv Screenshot,
         ProviderEv (first_request msg img
           (conversationHistory s @ [\<lparr>role = User, content = Str msg\<rparr>]))] @ []"
    by (simp add: chat_first_response[OF d i r] process_response_no_tools[OF True])
  with True show ?thesis
    by (intro exI[of _ "[]"]) simp
next
  case False
  let ?s3 = "s\<lparr>conversationHistory := conversationHistory s @ [\<lparr>role = User, content = Str msg\<rparr>],
       trace := trace s @ [SandboxEv Screenshot,
         ProviderEv (first_request msg img
           (conversationHistory s @ [\<lparr>role = User, content = Str msg\<rparr>]))]\<rparr>"
  have d3: "desktop ?s3 = Some h" using d by simp
  from process_response_tools[OF d3 False, of w] obtain results ext where
    ids: "map fst results = map fst (tool_uses resp)"
    and q: "executor_calls ext = map snd (tool_uses resp)" "provider_requests ext = []"
    and p: "process_response w resp ?s3 =
        (case provider_reply w (length (provider_requests (trace ?s3))) of
           Inl e \<Rightarrow>
             (Inl e,
              ?s3\<lparr>conversationHistory := conversationHistory ?s3 @ [\<lparr>role = Assistant, content = Blocks resp\<rparr>],
                trace := trace ?s3 @ ext @
                  [ProviderEv (followup_request
                     (conversationHistory ?s3 @ [\<lparr>role = Assistant, content = Blocks resp\<rparr>]) results)]\<rparr>)
         | Inr resp2 \<Rightarrow>
             (Inr (or_fallback (append_followup resp2 (concat (text_fragments resp)))),
              ?s3\<lparr>conversationHistory := conversationHistory ?s3 @
                  [\<lparr>role = Assistant, content = Blocks resp\<rparr>,
                   \<lparr>role = Assistant,
                    content = Str (or_fallback (append_followup resp2 (concat (text_fragments resp))))\<rparr>],
                trace := trace ?s3 @ ext @
                  [ProviderEv (followup_request
                     (conversationHistory ?s3 @ [\<lparr>role = Assistant, content = Blocks resp\<rparr>]) results)]\<rparr>))"
    by blast
  have "trace (snd (chat w msg s)) =
        trace s @
        [SandboxEv Screenshot,
         ProviderEv (first_request msg img
           (conversationHistory s @ [\<lparr>role = User, content = Str msg\<rparr>]))] @ ext @
        [ProviderEv (followup_request
                 (conversationHistory s @
                   [\<lparr>role = User, content = Str msg\<rparr>, \<lparr>role = Assistant, content = Blocks resp\<rparr>])
                 results)]"
    unfolding chat_first_response[OF d i r] p
    by (simp split: sum.splits)
  with False ids q show ?thesis by auto
qed



lemma chat_with_tools:
  assumes d: "desktop s = Some h"
    and i: "sandbox_reply w (length (sandbox_ops (trace s))) = Inr img"
    and r: "provider_reply w (length (provider_requests (trace s))) = Inr resp"
    and t: "tool_uses resp \<noteq> []"
  shows "\<exists>tr.
     chat w msg s =
       (case provider_reply w (Suc (length (provider_requests (trace s)))) of
          Inl e \<Rightarrow>
            (Inl e,
             s\<lparr>conversationHistory := conversationHistory s @
                  [\<lparr>role = User, content = Str msg\<rparr>, \<lparr>role = Assistant, content = Blocks resp\<rparr>],
               trace := tr\<rparr>)
        | Inr resp2 \<Rightarrow>
            (Inr (or_fallback (append_followup resp2 (concat (text_fragments resp)))),
             s\<lparr>conversationHistory := conversationHistory s @
                  [\<lparr>role = User, content = Str msg\<rparr>, \<lparr>role = Assistant, content = Blocks resp\<rparr>,
                   \<lparr>role = Assistant,
                    content = Str (or_fallback (append_followup resp2 (concat (text_fragments resp))))\<rparr>],
               trace := tr\<rparr>))"
proof -
  let ?s3 = "s\<lparr>conversationHistory := conversationHistory s @ [\<lparr>role = User, content = Str msg\<rparr>],
       trace := trace s @ [SandboxEv Screenshot,
         ProviderEv (first_request msg img
           (conversationHistory s @ [\<lparr>role = User, content = Str msg\<rparr>]))]\<rparr>"
  have d3: "desktop ?s3 = Some h" using d by simp
  have n3: "length (provider_requests (trace ?s3)) = Suc (length (provider_requests (trace s)))"
    by (simp add: provider_requests_append)
  from process_response_tools[OF d3 t, of w] obtain results ext where
    p: "process_response w resp ?s3 =
        (case provider_reply w (length (provider_requests (trace ?s3))) of
           Inl e \<Rightarrow>
             (Inl e,
              ?s3\<lparr>conversationHistory := conversationHistory ?s3 @ [\<lparr>role = Assistant, content = Blocks resp\<rparr>],
                trace := trace ?s3 @ ext @
                  [ProviderEv (followup_request
                     (conversationHistory ?s3 @ [\<lparr>role = Assistant, content = Blocks resp\<rparr>]) results)]\<rparr>)
         | Inr resp2 \<Rightarrow>
             (Inr (or_fallback (append_followup resp2 (concat (text_fragments resp)))),
              ?s3\<lparr>conversationHistory := conversationHistory ?s3 @
                  [\<lparr>role = Assistant, content = Blocks resp\<rparr>,
                   \<lparr>role = Assistant,
                    content = Str (or_fallback (append_followup resp2 (concat (text_fragments resp))))\<rparr>],
                trace := trace ?s3 @ ext @
                  [ProviderEv (followup_request
                     (conversationHistory ?s3 @ [\<lparr>role = Assistant, content = Blocks resp\<rparr>]) results)]\<rparr>))"
    by blast
  show ?thesis
    unfolding chat_first_response[OF d i r] p n3
    by (intro exI[of _ "trace ?s3 @ ext @
                  [ProviderEv (followup_request
                     (conversationHistory ?s3 @ [\<lparr>role = Assistant, content = Blocks resp\<rparr>]) results)]"])
       (simp split: sum.splits)
qed



text \<open>A chat call returns normally only if the agent is initialized, the screenshot was
  taken, the first request was answered and, when the answer holds an action request,
  the follow-up request was answered too.\<close>

lemma chat_success_replies:
  assumes "chat w msg s = (Inr out, s')"
  shows "\<exists>h img resp. desktop s = Some h
     \<and> sandbox_reply w (length (sandbox_ops (trace s))) = Inr img
     \<and> provider_reply w (length (provider_requests (trace s))) = Inr resp
     \<and> (tool_uses resp = [] \<or>
          (\<exists>resp2. provider_reply w (Suc (length (provider_requests (trace s)))) = Inr resp2))"
proof -
  from chat_success_cases[OF assms] obtain h img resp where
    d: "desktop s = Some h"
    and i: "sandbox_reply w (length (sandbox_ops (trace s))) = Inr img"
    and r: "provider_reply w (length (provider_requests (trace s))) = Inr resp"
    by blast
  have "tool_uses resp = [] \<or>
          (\<exists>resp2. provider_reply w (Suc (length (provider_requests (trace s)))) = Inr resp2)"
  proof (cases "tool_uses resp = []")
    case True
    then show ?thesis by simp
  next
    case False
    from chat_with_tools[OF d i r False, of msg] assms show ?thesis
      by (cases "provider_reply w (Suc (length (provider_requests (trace s))))") auto
  qed
  with d i r show ?thesis by blast
qed


text \<open>The turn "say hello" against the provider that answers "hello".\<close>

lemma chat_text_world:
  "chat text_world ''say hello'' ready =
     (Inr ''hello'',
      \<lparr>desktop = Some ''sbx-1'',
       conversationHistory =
         [\<lparr>role = User, content = Str ''say hello''\<rparr>, \<lparr>role = Assistant, content = Str ''hello''\<rparr>],
       trace =
         [SandboxEv Create, SandboxEv Screenshot,
          ProviderEv \<lparr>req_system = AgentPrompt,
                      req_messages = [(User, [TextBlock ''say hello'']),
                                      (User, [ImageBlock ''iVBORw0KGgo='', TextBlock []])]\<rparr>]\<rparr>)"
  by (simp add: chat_def takeScreenshot_def sandbox_call_def messages_create_def log_event_def
      process_response_def first_request_def api_message_def or_fallback_def
      text_world_def ready_def Let_def)


text \<open>The turn "take a screenshot" against the provider that asks for a screenshot and
  then says "Done.".\<close>

lemma chat_screenshot_world:
  "chat screenshot_world ''take a screenshot'' ready =
     (Inr (CHR 0x0A # ''Done.''),
      \<lparr>desktop = Some ''sbx-1'',
       conversationHistory =
         [\<lparr>role = User, content = Str ''take a screenshot''\<rparr>,
          \<lparr>role = Assistant, content = Blocks [ToolUseBlock ''toolu_1'' ''screenshot'' no_input]\<rparr>,
          \<lparr>role = Assistant, content = Str (CHR 0x0A # ''Done.'')\<rparr>],
       trace =
         [SandboxEv Create, SandboxEv Screenshot,
          ProviderEv \<lparr>req_system = AgentPrompt,
                      req_messages = [(User, [TextBlock ''take a screenshot'']),
                                      (User, [ImageBlock ''iVBORw0KGgo='', TextBlock []])]\<rparr>,
          ToolInvoked ''screenshot'' no_input, SandboxEv Screenshot,
          ProviderEv \<lparr>req_system = ContinuePrompt,
                      req_messages =
                        [(User, [TextBlock ''take a screenshot'']),
                         (Assistant, [ToolUseBlock ''toolu_1'' ''screenshot'' no_input]),
                         (User, [ToolResultBlock ''toolu_1'' (SuccessImage ''iVBORw0KGgo='')])]\<rparr>]\<rparr>)"
  by (simp add: chat_def takeScreenshot_def sandbox_call_def messages_create_def log_event_def
      process_response_def continue_with_results_def followup_request_def
      executeToolCall_def tool_switch_def
      first_request_def api_message_def or_fallback_def
      screenshot_world_def ready_def Let_def)




text \<open>
  Claim C6, as stated, fails: in the first request of the turn "say hello" the final
  user entry holds the image and an empty text part.
\<close>

theorem first_request_text_part_is_empty:
  "last (req_messages (hd (provider_requests (trace (snd (chat text_world ''say hello'' ready))))))
     = (User, [ImageBlock ''iVBORw0KGgo='', TextBlock []])"
  by (simp add: chat_text_world)

text \<open>
  Claim C6, amended. Once the screenshot is taken, the first request of the turn is
  issued and consists of the prior history, a user entry with the instruction as text,
  and a final user entry with the captured image and an empty text part.
\<close>

theorem first_request_shape:
  assumes d: "desktop s = Some h"
    and i: "sandbox_reply w (length (sandbox_ops (trace s))) = Inr img"
  shows "\<exists>later.
      provider_requests (trace (snd (chat w msg s))) =
        provider_requests (trace s) @
        \<lparr>req_system = AgentPrompt,
         req_messages =
           map api_message (conversationHistory s) @
           [(User, [TextBlock msg]), (User, [ImageBlock img, TextBlock []])]\<rparr> # later"
proof (cases "provider_reply w (length (provider_requests (trace s)))")
  case (Inl e)
  have "provider_requests (trace (snd (chat w msg s))) =
        provider_requests (trace s) @
        [first_request msg img (conversationHistory s @ [\<lparr>role = User, content = Str msg\<rparr>])]"
    by (simp add: chat_provider_fails[OF d i Inl] provider_requests_append)
  then show ?thesis by (simp add: first_request_eq)
next
  case (Inr resp)
  from chat_trace_shape[OF d i Inr, of msg] obtain tl where
    "trace (snd (chat w msg s)) =
        trace s @
        [SandboxEv Screenshot,
         ProviderEv (first_request msg img
           (conversationHistory s @ [\<lparr>role = User, content = Str msg\<rparr>]))] @ tl"
    by blast
  then have "provider_requests (trace (snd (chat w msg s))) =
        provider_requests (trace s) @
        first_request msg img (conversationHistory s @ [\<lparr>role = User, content = Str msg\<rparr>])
          # provider_requests tl"
    by (simp add: provider_requests_append)
  then show ?thesis by (simp add: first_request_eq)
qed

text \<open>The first request of the turn "go".\<close>

theorem first_request_shape_witness:
  "desktop ready = Some ''sbx-1''
   \<and> sandbox_reply text_world (length (sandbox_ops (trace ready))) = Inr ''iVBORw0KGgo=''
   \<and> hd (provider_requests (trace (snd (chat text_world ''go'' ready)))) =
        \<lparr>req_system = AgentPrompt,
         req_messages = [(User, [TextBlock ''go'']),
                         (User, [ImageBlock ''iVBORw0KGgo='', TextBlock []])]\<rparr>"
proof -
  have d: "desktop ready = Some ''sbx-1''" by (simp add: ready_def)
  have i: "sandbox_reply text_world (length (sandbox_ops (trace ready))) = Inr ''iVBORw0KGgo=''"
    by (simp add: text_world_def)
  from first_request_shape[OF d i, of "''go''"]
  have "hd (provider_requests (trace (snd (chat text_world ''go'' ready)))) =
        \<lparr>req_system = AgentPrompt,
         req_messages = [(User, [TextBlock ''go'']),
                         (User, [ImageBlock ''iVBORw0KGgo='', TextBlock []])]\<rparr>"
    by (auto simp: ready_def)
  with d i show ?thesis by blast
qed

text \<open>
  Claim C8, as stated, fails: with one screenshot request in the first response and the
  follow-up text "Done.", chat returns "Done." preceded by a newline.
\<close>

theorem screenshot_turn_returns_newline_first:
  "fst (chat screenshot_world ''take a screenshot'' ready) = Inr (CHR 0x0A # ''Done.'')
   \<and> provider_reply screenshot_world 1 = Inr [TextBlock ''Done.'']
   \<and> fst (chat screenshot_world ''take a screenshot'' ready) \<noteq> Inr ''Done.''"
proof -
  have "provider_reply screenshot_world 1 = Inr [TextBlock ''Done.'']"
    by (simp add: screenshot_world_def)
  moreover have "fst (chat screenshot_world ''take a screenshot'' ready) = Inr (CHR 0x0A # ''Done.'')"
    by (simp add: chat_screenshot_world)
  ultimately show ?thesis by simp
qed

text \<open>
  Claim C8, amended. When the first response holds exactly one action request, a
  screenshot, and no text, and the follow-up call succeeds, chat returns the text
  fragments of the follow-up response, each preceded by a newline (the fallback string
  when there is no fragment), and the history has 3 new entries.
\<close>

theorem screenshot_turn_result:
  assumes d: "desktop s = Some h"
    and i: "sandbox_reply w (length (sandbox_ops (trace s))) = Inr img"
    and r: "provider_reply w (length (provider_requests (trace s))) = Inr resp"
    and t: "tool_uses resp = [(tid, ''screenshot'', inp)]"
    and n: "text_fragments resp = []"
    and r2: "provider_reply w (Suc (length (provider_requests (trace s)))) = Inr resp2"
  shows "fst (chat w msg s) =
           Inr (or_fallback (concat (map (\<lambda>t. CHR 0x0A # t) (text_fragments resp2))))
       \<and> length (conversationHistory (snd (chat w msg s))) = length (conversationHistory s) + 3"
proof -
  have t': "tool_uses resp \<noteq> []" using t by simp
  from chat_with_tools[OF d i r t', of msg] r2 obtain tr where
      "chat w msg s =
            (Inr (or_fallback (append_followup resp2 (concat (text_fragments resp)))),
             s\<lparr>conversationHistory := conversationHistory s @
                  [\<lparr>role = User, content = Str msg\<rparr>, \<lparr>role = Assistant, content = Blocks resp\<rparr>,
                   \<lparr>role = Assistant,
                    content = Str (or_fallback (append_followup resp2 (concat (text_fragments resp))))\<rparr>],
               trace := tr\<rparr>)"
    by auto
  then show ?thesis by (simp add: n append_followup_eq)
qed

text \<open>The turn "screen please" returns a newline and "Done." and adds 3 entries.\<close>

theorem screenshot_turn_result_witness:
  "desktop ready = Some ''sbx-1''
   \<and> sandbox_reply screenshot_world (length (sandbox_ops (trace ready))) = Inr ''iVBORw0KGgo=''
   \<and> provider_reply screenshot_world (length (provider_requests (trace ready)))
        = Inr [ToolUseBlock ''toolu_1'' ''screenshot'' no_input]
   \<and> tool_uses [ToolUseBlock ''toolu_1'' ''screenshot'' no_input]
        = [(''toolu_1'', ''screenshot'', no_input)]
   \<and> text_fragments [ToolUseBlock ''toolu_1'' ''screenshot'' no_input] = []
   \<and> provider_reply screenshot_world (Suc (length (provider_requests (trace ready))))
        = Inr [TextBlock ''Done.'']
   \<and> fst (chat screenshot_world ''screen please'' ready) = Inr (CHR 0x0A # ''Done.'')
   \<and> length (conversationHistory (snd (chat screenshot_world ''screen please'' ready))) = 3"
proof -
  have d: "desktop ready = Some ''sbx-1''" by (simp add: ready_def)
  have i: "sandbox_reply screenshot_world (length (sandbox_ops (trace ready))) = Inr ''iVBORw0KGgo=''"
    by (simp add: screenshot_world_def)
  have r: "provider_reply screenshot_world (length (provider_requests (trace ready)))
        = Inr [ToolUseBlock ''toolu_1'' ''screenshot'' no_input]"
    by (simp add: screenshot_world_def ready_def)
  have t: "tool_uses [ToolUseBlock ''toolu_1'' ''screenshot'' no_input]
        = [(''toolu_1'', ''screenshot'', no_input)]" by simp
  have n: "text_fragments [ToolUseBlock ''toolu_1'' ''screenshot'' no_input] = []" by simp
  have r2: "provider_reply screenshot_world (Suc (length (provider_requests (trace ready))))
        = Inr [TextBlock ''Done.'']"
    by (simp add: screenshot_world_def)
  from screenshot_turn_result[OF d i r t n r2, of "''screen please''"]
  have "fst (chat screenshot_world ''screen please'' ready) = Inr (CHR 0x0A # ''Done.'')
   \<and> length (conversationHistory (snd (chat screenshot_world ''screen please'' ready))) = 3"
    by (simp add: or_fallback_def ready_def)
  with d i r t n r2 show ?thesis by - (intro conjI; simp)
qed



end
